theory Spec2Isabelle
  imports Main "HOL-Library.AList"
begin

section \<open>Session state (Streamlit.py, lines 17-29)\<close>

text \<open>
  The application keeps all of its mutable data in \<^verbatim>\<open>st.session_state\<close>. The six
  keys initialised at lines 18-29 are the fields of the record below (the key
  \<^verbatim>\<open>section\<close> is the field \<open>section_sel\<close>). A Python value that may be
  \<^verbatim>\<open>None\<close> is an option. Strings are lists of characters, one per code point (every
  literal of the source that is embedded here is ASCII).

  A result table (a pandas DataFrame) is its ordered column names and its rows; each row
  holds one cell per column.
\<close>

datatype scalar = Str string | Num int | Null

record dataframe =
  columns :: "string list"
  rows :: "scalar list list"

type_synonym driver = nat

record session =
  current_page :: string
  category :: "string option"
  section_sel :: "string option"
  responses :: "(string \<times> dataframe) list"
  neo4j_connected :: bool
  neo4j_driver :: "driver option"

definition initial :: session where
  "initial = \<lparr>current_page = ''Home'', category = None, section_sel = None,
               responses = [], neo4j_connected = False, neo4j_driver = None\<rparr>"

section \<open>Navigation (lines 65-77, 1317-1320)\<close>

definition navigate_to_home :: "session \<Rightarrow> session" where
  "navigate_to_home s = s\<lparr>current_page := ''Home'', category := None, section_sel := None\<rparr>"

definition navigate_to_category :: "string option \<Rightarrow> session \<Rightarrow> session" where
  "navigate_to_category c s = s\<lparr>current_page := ''Category'', category := c, section_sel := None\<rparr>"

definition navigate_to_section :: "string option \<Rightarrow> session \<Rightarrow> session" where
  "navigate_to_section x s = s\<lparr>section_sel := x\<rparr>"

text \<open>
  The handler of the "Back to Sections" button (line 1319) is the single assignment
  \<^verbatim>\<open>st.session_state.section = None\<close>.
\<close>

definition back_to_sections :: "session \<Rightarrow> session" where
  "back_to_sections s = s\<lparr>section_sel := None\<rparr>"

datatype action =
    Go_home
  | Select_category "string option"
  | Select_section "string option"
  | Back_to_sections

fun step :: "action \<Rightarrow> session \<Rightarrow> session" where
  "step Go_home s = navigate_to_home s"
| "step (Select_category c) s = navigate_to_category c s"
| "step (Select_section x) s = navigate_to_section x s"
| "step Back_to_sections s = back_to_sections s"


fun run :: "session \<Rightarrow> action list \<Rightarrow> session" where
  "run s [] = s"
| "run s (a # as) = run (step a s) as"

text \<open>
  The two call sites that set a section are reached only on the Category page with a
  category selected: line 876 lies inside \<^verbatim>\<open>category_page\<close>, which line 1400 calls
  when \<^verbatim>\<open>current_page == "Category"\<close> and which indexes the catalog by the selected
  category; line 1339 is guarded by line 1336,
  \<^verbatim>\<open>st.session_state.category == category and st.session_state.current_page == "Category"\<close>.
  \<open>offered\<close> is that guard; the other three actions are offered in every navigation state.
\<close>

fun offered :: "action \<Rightarrow> session \<Rightarrow> bool" where
  "offered (Select_section x) s = (current_page s = ''Category'' \<and> category s \<noteq> None)"
| "offered a s = True"

fun offered_all :: "session \<Rightarrow> action list \<Rightarrow> bool" where
  "offered_all s [] = True"
| "offered_all s (a # as) = (offered a s \<and> offered_all (step a s) as)"

definition nav_invariant :: "session \<Rightarrow> bool" where
  "nav_invariant s =
     (section_sel s \<noteq> None \<longrightarrow> category s \<noteq> None \<and> current_page s = ''Category'')"

section \<open>The graph database driver (an external library)\<close>

text \<open>
  The neo4j driver is not part of the repository, so what it answers is a parameter of the
  model. A call either raises, which is \<open>Inl\<close> of the text that \<^verbatim>\<open>str(e)\<close> gives, or
  returns, which is \<open>Inr\<close>.
  \<^item> \<open>new_driver\<close> is \<^verbatim>\<open>GraphDatabase.driver(uri, auth=(username, password))\<close>;
  \<^item> \<open>run_query\<close> is opening a session on a driver, \<^verbatim>\<open>session.run(query, params)\<close>
    and reading every record's \<^verbatim>\<open>data()\<close>, a dictionary from column name to value.
  The result of \<^verbatim>\<open>driver.close()\<close> is never looked at (line 1348 ignores a failure).
  Every function that talks to the driver also returns the list of the calls it made.
\<close>

type_synonym py_dict = "(string \<times> scalar) list"

record database =
  new_driver :: "string \<Rightarrow> string \<Rightarrow> string \<Rightarrow> string + driver"
  run_query :: "driver \<Rightarrow> string \<Rightarrow> py_dict \<Rightarrow> string + py_dict list"

datatype db_call =
    Driver_new string string string
  | Session_run driver string py_dict
  | Driver_close driver

text \<open>What a handler puts on the page: an error box, a table, a chart (named by the line
  of the block that draws it).\<close>

datatype ui = St_error string | St_dataframe dataframe | St_plotly_chart nat

section \<open>Connecting and disconnecting (lines 31-45, 1343-1353)\<close>

record connect_result =
  connected_ok :: bool
  connect_state :: session
  connect_shown :: "ui list"
  connect_calls :: "db_call list"

definition connect_to_neo4j ::
  "database \<Rightarrow> string \<Rightarrow> string \<Rightarrow> string \<Rightarrow> session \<Rightarrow> connect_result" where
  "connect_to_neo4j db uri username password s =
     (case new_driver db uri username password of
        Inl e \<Rightarrow>
          \<lparr>connected_ok = False, connect_state = s\<lparr>neo4j_connected := False\<rparr>,
           connect_shown = [St_error (''Failed to connect to Neo4j: '' @ e)],
           connect_calls = [Driver_new uri username password]\<rparr>
      | Inr d \<Rightarrow>
          (case run_query db d ''RETURN 1 AS test'' [] of
             Inl e \<Rightarrow>
               \<lparr>connected_ok = False, connect_state = s\<lparr>neo4j_connected := False\<rparr>,
                connect_shown = [St_error (''Failed to connect to Neo4j: '' @ e)],
                connect_calls =
                  [Driver_new uri username password, Session_run d ''RETURN 1 AS test'' []]\<rparr>
           | Inr recs \<Rightarrow>
               \<lparr>connected_ok = True,
                connect_state = s\<lparr>neo4j_driver := Some d, neo4j_connected := True\<rparr>,
                connect_shown = [],
                connect_calls =
                  [Driver_new uri username password, Session_run d ''RETURN 1 AS test'' []]\<rparr>))"

text \<open>The "Disconnect from Neo4j" button: the stored driver, if any, is closed, a failure
  of the close is ignored, and both fields are reset.\<close>

definition disconnect :: "session \<Rightarrow> session \<times> db_call list" where
  "disconnect s =
     (s\<lparr>neo4j_connected := False, neo4j_driver := None\<rparr>,
      case neo4j_driver s of None \<Rightarrow> [] | Some d \<Rightarrow> [Driver_close d])"

section \<open>Running a query (lines 47-63)\<close>

text \<open>
  \<^verbatim>\<open>pd.DataFrame(data)\<close> of a list of dictionaries: the columns are the keys in the
  order in which they are first seen, and a row has \<open>Null\<close> where its dictionary lacks a
  key. \<^verbatim>\<open>pd.DataFrame()\<close> has no column and no row. \<^verbatim>\<open>df.empty\<close> holds when the
  frame has no column or no row.
\<close>

definition first_seen :: "'a list \<Rightarrow> 'a list" where
  "first_seen xs = fold (\<lambda>x acc. if x \<in> set acc then acc else acc @ [x]) xs []"

definition DataFrame :: "py_dict list \<Rightarrow> dataframe" where
  "DataFrame data =
     (let cols = first_seen (concat (map (map fst) data))
      in \<lparr>columns = cols,
          rows = map (\<lambda>r. map (\<lambda>c. case map_of r c of Some v \<Rightarrow> v | None \<Rightarrow> Null) cols) data\<rparr>)"

definition DataFrame_empty :: dataframe where
  "DataFrame_empty = \<lparr>columns = [], rows = []\<rparr>"

definition df_empty :: "dataframe \<Rightarrow> bool" where
  "df_empty df = (columns df = [] \<or> rows df = [])"

text \<open>
  \<^verbatim>\<open>run_neo4j_query\<close> has two failure exits, each showing an error box and returning
  \<^verbatim>\<open>None\<close>: the connection check of lines 49-51 and the handler of lines 61-63, which
  keeps \<^verbatim>\<open>str(e)\<close>. \<open>error_text\<close> is the text of the box.
\<close>

datatype error = NotConnected | QueryError string

fun error_text :: "error \<Rightarrow> string" where
  "error_text NotConnected = ''Not connected to Neo4j. Please connect first.''"
| "error_text (QueryError e) = ''Query execution failed: '' @ e"

definition run_neo4j_query ::
  "database \<Rightarrow> string \<Rightarrow> py_dict option \<Rightarrow> session \<Rightarrow> (error + dataframe) \<times> db_call list" where
  "run_neo4j_query db query params s =
     (if \<not> neo4j_connected s then (Inl NotConnected, [])
      else case neo4j_driver s of
        None \<Rightarrow> (Inl NotConnected, [])
      | Some d \<Rightarrow>
          (let ps = (case params of None \<Rightarrow> [] | Some p \<Rightarrow> p)
           in case run_query db d query ps of
                Inl e \<Rightarrow> (Inl (QueryError e), [Session_run d query ps])
              | Inr data \<Rightarrow>
                  (Inr (if data = [] then DataFrame_empty else DataFrame data),
                   [Session_run d query ps])))"

section \<open>Strings\<close>

fun startswith :: "string \<Rightarrow> string \<Rightarrow> bool" where
  "startswith s [] = True"
| "startswith [] (p # ps) = False"
| "startswith (c # cs) (p # ps) = (c = p \<and> startswith cs ps)"

definition endswith :: "string \<Rightarrow> string \<Rightarrow> bool" where
  "endswith s suf = startswith (rev s) (rev suf)"

text \<open>\<^verbatim>\<open>str.strip()\<close> removes white space at both ends: the characters 9 to 13, 28 to 32,
  133 and 160.\<close>

definition is_space :: "char \<Rightarrow> bool" where
  "is_space c \<longleftrightarrow>
     c \<in> set [CHR 0x09, CHR 0x0A, CHR 0x0B, CHR 0x0C, CHR 0x0D, CHR 0x1C, CHR 0x1D,
              CHR 0x1E, CHR 0x1F, CHR 0x20, CHR 0x85, CHR 0xA0]"

definition strip :: "string \<Rightarrow> string" where
  "strip s = rev (dropWhile is_space (rev (dropWhile is_space s)))"

text \<open>\<^verbatim>\<open>s.split(sep)\<close> cuts at the occurrences of the separator found from left to
  right, an occurrence starting where the one before ended at the earliest. (Python
  raises on an empty separator; the one use here has a separator of three characters.)\<close>

function split_from :: "string \<Rightarrow> string \<Rightarrow> string \<Rightarrow> string list" where
  "split_from sep cur [] = [rev cur]"
| "split_from sep cur (c # cs) =
     (if sep \<noteq> [] \<and> startswith (c # cs) sep
      then rev cur # split_from sep [] (drop (length sep) (c # cs))
      else split_from sep (c # cur) cs)"
  by pat_completeness auto
termination
  by (relation "measure (\<lambda>(sep, cur, s). length s)") (auto simp: neq_Nil_conv)

definition split :: "string \<Rightarrow> string \<Rightarrow> string list" where
  "split s sep = split_from sep [] s"

section \<open>The catalog (lines 79-777)\<close>

text \<open>The dictionary \<^verbatim>\<open>questions\<close>: category, section, the questions of the section
  in order. The query text of an entry is opaque to the application and is left out; the
  handlers below take it as an argument.\<close>

definition questions :: "(string \<times> (string \<times> string list) list) list" where
  "questions =
   [
    (''Customer Lifecycle & Behavior'',
      [
       (''Customer Journey Evolution'',
         [''How does the average cart size evolve over a customer's lifetime (by order number)?'',
          ''What's the typical progression of departments that new customers explore over their first 5 orders?'',
          ''How many aisles do new clients usually browse throughout their first 5 orders?'',
          ''How does order hour preference evolve for departments over time?'',
          ''How does customer/basket share vary across product categories over time?'']),
       (''Customer Retention & Segmentation'',
         [''How does customer retention vary over time based on their preferred shopping department?'',
          ''Which products play a central role in the early purchasing patterns of retained customers?'',
          ''Can we identify distinct customer segments based on ordering day/time patterns?'']),
       (''Purchase Pattern Transitions'',
         [''Which products are most frequently transitioned into by loyal customers?'',
          ''Which products serve as 'gateway purchases' that lead to exploration of new departments?''])]),
    (''Reorder Behavior & Loyalty Drivers'',
      [
       (''Reorder Dynamics'',
         [''Are customers reordering items popular with others in their first order?'',
          ''How does reorder frequency vary with days_since_prior_order for frequently purchased items?'',
          ''What's the relationship between a product's department and reorder likelihood?'']),
       (''Promotions & Reorder Uplift'',
         [''Which products are most often added to cart in the first 3 positions?'',
          ''Do users prefer reordering familiar products early or exploring new ones in the first 3 cart additions?'',
          ''Which product categories have the highest uplift in sales?''])]),
    (''Product Affinity, Graphs & Recommendations'',
      [
       (''Co-Purchase Patterns & Product Graphs'',
         [''What are the top product pairings based on co-purchase frequency?'',
          ''What products have the highest cross-department purchase correlation?'',
          ''Which items act as a 'bridge' between different product communities?'']),
       (''Community Detection & Recommendation Modeling'',
         [''Do high-centrality products (high betweenness) make better recommendations than low-centrality ones?''])]),
    (''Demand Trends & Seasonality'',
      [
       (''Product Lifecycle & Decline'',
         [''Which products show the sharpest drop in demand over time?'']),
       (''Seasonal Effects'',
         [''Which product categories exhibit strong day-of-week effects?'',
          ''What is the day-of-week effect on order size across different product categories?''])]),
    (''Supply Chain & Delivery Performance'',
      [
       (''Delivery Success Factors'',
         [''Which suppliers have the highest delivery success rates?'',
          ''What proportion of shipments are in transit, delivered and dispatched?'']),
       (''Efficiency Drivers'',
         [''What is the average delivery delay (in days) for shipments by category?'',
          ''How does product category mix affect on-time delivery?'',
          ''How does supply chain performance vary with seasonal demand fluctuations?''])]),
    (''Performance Metrics & Sales KPIs'',
      [
       (''Priority stocking & display strategy'',
         [''Which products connect the widest variety of departments and have high co-purchase influence?'']),
       (''Resource allocation and marketing focus'',
         [''Which departments contribute most to overall order volume?''])])]"

definition catalog_questions :: "string list" where
  "catalog_questions = concat (map (\<lambda>(c, secs). concat (map snd secs)) questions)"

section \<open>Charts (lines 901-1315)\<close>

text \<open>
  After the table is shown, \<^verbatim>\<open>category_page\<close> runs twenty-six \<^verbatim>\<open>if\<close> blocks one
  after the other (none is an \<^verbatim>\<open>elif\<close>). Each block tests
  \<^verbatim>\<open>question.strip().startswith(...)\<close> against a literal, then possibly that the
  frame is not empty and that some columns are present, and then builds one chart. A row
  of the table below is one block: its line, the literal, whether it tests
  \<^verbatim>\<open>not result_df.empty\<close>, the columns it tests, the columns the chart code reads, and
  whether it writes the column \<^verbatim>\<open>pair\<close> into the frame (line 1121).
\<close>

datatype chart_rule =
  Chart_rule (at_line: nat) (starts: string) (needs_rows: bool) (needs_cols: "string list")
    (reads: "string list") (adds_pair: bool)

definition chart_rules :: "chart_rule list" where
  "chart_rules =
   [
    Chart_rule 902
      ''How does the average cart size evolve over a customer's lifetime (by order number)?''
      False [''CartBehavior'']
      [''CartBehavior''] False,
    Chart_rule 916
      ''What's the typical progression of departments that new customers explore over their first 5 orders?''
      True [''orderNum'', ''departmentName'', ''freq'']
      [''orderNum'', ''freq'', ''departmentName''] False,
    Chart_rule 929
      ''How many aisles do new clients usually browse throughout their first 5 orders?''
      False [''aisleName'', ''frequency'']
      [''frequency'', ''aisleName''] False,
    Chart_rule 944
      ''How does order hour preference evolve for departments over time?''
      False [''hour'', ''department'', ''freq'']
      [''department'', ''hour'', ''freq''] False,
    Chart_rule 958
      ''How does customer/basket share vary across product categories over time?''
      False [''dayOfWeek'', ''department'', ''basketSharePct'']
      [''department'', ''dayOfWeek'', ''basketSharePct''] False,
    Chart_rule 973
      ''How does customer retention vary over time based on their preferred shopping department?''
      False [''departmentSegment'', ''orderNum'', ''customers'']
      [''orderNum'', ''departmentSegment'', ''customers''] False,
    Chart_rule 993
      ''Which products play a central role in the early purchasing patterns of retained customers?''
      False [''productName'', ''pageRankScore'']
      [''pageRankScore'', ''productName''] False,
    Chart_rule 1005
      ''Can we identify distinct customer segments based on ordering day/time patterns?''
      False [''timeSegment'', ''userCount'']
      [''timeSegment'', ''userCount''] False,
    Chart_rule 1015
      ''Which products are most frequently transitioned into by loyal customers?''
      False [''productName'', ''retainedUsers'']
      [''retainedUsers'', ''productName''] False,
    Chart_rule 1029
      ''Which products serve as 'gateway purchases' that lead to exploration of new departments?''
      False [''gatewayProduct'', ''newDeptCount'']
      [''newDeptCount'', ''gatewayProduct''] False,
    Chart_rule 1043
      ''Are customers reordering items popular with others in their first order?''
      False []
      [''percentInFirstOrders'', ''productName'', ''totalOrders''] False,
    Chart_rule 1067
      ''How does reorder frequency vary with days_since_prior_order for frequently purchased items?''
      False []
      [''avgDaysBetweenReorders'', ''productName''] False,
    Chart_rule 1080
      ''What's the relationship between a product's department and reorder likelihood?''
      False []
      [''department'', ''reorderRatePct''] False,
    Chart_rule 1092
      ''Which product categories have the highest uplift in sales?''
      False [''product'']
      [''avgUpliftPct'', ''product''] False,
    Chart_rule 1119
      ''What are the top product pairings based on co-purchase frequency?''
      False [''productA'', ''productB'', ''timesBoughtTogether'']
      [''productA'', ''productB'', ''timesBoughtTogether''] True,
    Chart_rule 1135
      ''What products have the highest cross-department purchase correlation?''
      True []
      [''similarityScore'', ''deptA'', ''deptB'', ''productA'', ''productB''] False,
    Chart_rule 1160
      ''Which items act as a 'bridge' between different product communities?''
      False [''productName'']
      [''betweennessScore'', ''productName'', ''sourceCommunity''] False,
    Chart_rule 1182
      ''Do high-centrality products (high betweenness) make better recommendations than low-centrality ones?''
      False [''centralityGroup'']
      [''centralityGroup'', ''totalOrders''] False,
    Chart_rule 1195
      ''Which product categories exhibit strong day-of-week effects?''
      False []
      [''department'', ''volatilityPct''] False,
    Chart_rule 1208
      ''What is the day-of-week effect on order size across different product categories?''
      False [''department'', ''highestCartDay'', ''lowestCartDay'', ''highestAvgCartSize'', ''lowestAvgCartSize'']
      [''department'', ''highestAvgCartSize'', ''lowestAvgCartSize'', ''highestCartDay'', ''lowestCartDay''] False,
    Chart_rule 1235
      ''Which products connect the widest variety of departments and have high co-purchase influence?''
      False [''pageRank'']
      [''crossDeptConnections'', ''pageRank'', ''productName''] False,
    Chart_rule 1254
      ''Which departments contribute most to overall order volume?''
      False [''department'', ''orderCount'', ''pctOfTotalOrders'']
      [''department'', ''orderCount'', ''pctOfTotalOrders''] False,
    Chart_rule 1268
      ''What proportion of shipments are in transit, delivered and dispatched?''
      False []
      [''shipmentStatus'', ''shipmentCount''] False,
    Chart_rule 1278
      ''What is the average delivery delay (in days) for shipments by category?''
      False [''aisleName'']
      [''aisleName'', ''avgDelayDays''] False,
    Chart_rule 1291
      ''How does product category mix affect on-time delivery?''
      False [''departmentName'']
      [''departmentName'', ''shipmentCount'', ''deliveryStatus''] False,
    Chart_rule 1305
      ''How does supply chain performance vary with seasonal demand fluctuations?''
      False [''shipmentMonth'']
      [''shipmentMonth'', ''onTimeRatePct''] False]"

definition fires :: "chart_rule \<Rightarrow> string \<Rightarrow> dataframe \<Rightarrow> bool" where
  "fires r question df =
     (startswith (strip question) (starts r)
      \<and> (needs_rows r \<longrightarrow> \<not> df_empty df)
      \<and> set (needs_cols r) \<subseteq> set (columns df))"

text \<open>
  The chart code is pandas and plotly. Reading a column that the frame does not have
  raises there (\<^verbatim>\<open>KeyError\<close> from \<^verbatim>\<open>sort_values\<close>, \<^verbatim>\<open>ValueError\<close> from
  plotly express); the model records the absent columns. What else these libraries do is
  a parameter: \<open>data_error\<close> says whether the block at a line fails on a frame that has
  every column it reads (a pivot with duplicate entries, a missing index label), and
  \<open>format_pair\<close> is the f-string of line 1121 on two cells.
\<close>

datatype exn = Columns_absent "string list" | Library_error string

record library =
  data_error :: "nat \<Rightarrow> dataframe \<Rightarrow> string option"
  format_pair :: "scalar \<Rightarrow> scalar \<Rightarrow> string"

definition cell :: "dataframe \<Rightarrow> scalar list \<Rightarrow> string \<Rightarrow> scalar" where
  "cell df r c = (case map_of (zip (columns df) r) c of Some v \<Rightarrow> v | None \<Rightarrow> Null)"

text \<open>\<^verbatim>\<open>df[c] = values\<close>: an existing column is overwritten in place, a new one is
  added at the end.\<close>

definition assign_column :: "string \<Rightarrow> scalar list \<Rightarrow> dataframe \<Rightarrow> dataframe" where
  "assign_column c vs df =
     (if c \<in> set (columns df)
      then df\<lparr>rows := map2 (\<lambda>r v. map2 (\<lambda>k old. if k = c then v else old) (columns df) r)
                          (rows df) vs\<rparr>
      else df\<lparr>columns := columns df @ [c], rows := map2 (\<lambda>r v. r @ [v]) (rows df) vs\<rparr>)"

definition with_pair :: "library \<Rightarrow> dataframe \<Rightarrow> dataframe" where
  "with_pair lib df =
     assign_column ''pair''
       (map (\<lambda>r. Str (format_pair lib (cell df r ''productA'') (cell df r ''productB'')
                       )) (rows df)) df"

text \<open>The body of one block: the frame as the block leaves it, and the exception if it
  raises. The block of line 1119 writes its column before it plots, so a failure of the
  plot leaves the column written.\<close>

definition build :: "library \<Rightarrow> chart_rule \<Rightarrow> dataframe \<Rightarrow> dataframe \<times> exn option" where
  "build lib r df =
     (let absent = filter (\<lambda>c. c \<notin> set (columns df)) (reads r)
      in if absent \<noteq> [] then (df, Some (Columns_absent absent))
         else let df' = (if adds_pair r then with_pair lib df else df)
              in case data_error lib (at_line r) df' of
                   Some m \<Rightarrow> (df', Some (Library_error m))
                 | None \<Rightarrow> (df', None))"

text \<open>The blocks in order. Nothing in \<^verbatim>\<open>category_page\<close> catches an exception, so the
  first block that raises ends the run: the result is the frame as left by the blocks,
  the charts drawn so far, and the exception if there is one.\<close>

fun run_rules ::
  "library \<Rightarrow> chart_rule list \<Rightarrow> string \<Rightarrow> dataframe \<Rightarrow> dataframe \<times> ui list \<times> exn option" where
  "run_rules lib [] question df = (df, [], None)"
| "run_rules lib (r # rs) question df =
     (if fires r question df
      then (case build lib r df of
              (df', Some e) \<Rightarrow> (df', [], Some e)
            | (df', None) \<Rightarrow>
                (case run_rules lib rs question df' of
                   (d, charts, x) \<Rightarrow> (d, St_plotly_chart (at_line r) # charts, x)))
      else run_rules lib rs question df)"

definition show_charts :: "library \<Rightarrow> string \<Rightarrow> dataframe \<Rightarrow> dataframe \<times> ui list \<times> exn option" where
  "show_charts lib question df = run_rules lib chart_rules question df"

section \<open>The "Run Analysis" button (lines 891-1315)\<close>

text \<open>
  \<open>run_analysis\<close> is the body of the button of one question on the Category page, with
  the selected category and section, the question and its query. A fetched frame that is
  not empty is stored under the key \<^verbatim>\<open>f"{category} | {section} | {question}"\<close> and
  shown; then the chart blocks run. The dictionary \<^verbatim>\<open>responses\<close> holds the very
  object \<^verbatim>\<open>result_df\<close>, so a column written by a chart block is written to the stored
  frame as well: the entry is the frame as the blocks leave it.
\<close>

record page_result =
  state :: session
  shown :: "ui list"
  raised :: "exn option"
  calls :: "db_call list"

definition response_key :: "string \<Rightarrow> string \<Rightarrow> string \<Rightarrow> string" where
  "response_key cat sec question = cat @ '' | '' @ sec @ '' | '' @ question"

definition run_analysis ::
  "library \<Rightarrow> database \<Rightarrow> string \<Rightarrow> string \<Rightarrow> string \<Rightarrow> string \<Rightarrow> session \<Rightarrow> page_result" where
  "run_analysis lib db cat sec question query s =
     (case run_neo4j_query db query None s of
        (Inl e, cs) \<Rightarrow>
          \<lparr>state = s, shown = [St_error (error_text e)], raised = None, calls = cs\<rparr>
      | (Inr result_df, cs) \<Rightarrow>
          if df_empty result_df
          then \<lparr>state = s, shown = [], raised = None, calls = cs\<rparr>
          else (case show_charts lib question result_df of
                  (df', charts, x) \<Rightarrow>
                    \<lparr>state = s\<lparr>responses :=
                        AList.update (response_key cat sec question) df' (responses s)\<rparr>,
                     shown = St_dataframe result_df # charts, raised = x, calls = cs\<rparr>))"

section \<open>Export (lines 1355-1395)\<close>

text \<open>
  The "Export All Results" button collects the stored frames in a dictionary
  \<^verbatim>\<open>all_data\<close> keyed by sheet name, in the order of \<^verbatim>\<open>responses\<close>; assigning to a
  key that is already there replaces its frame. Every stored value is a frame, so the
  \<^verbatim>\<open>isinstance\<close> test is true. Each entry of \<open>all_data\<close> is then handed, as it is, to
  \<^verbatim>\<open>to_csv\<close> (one download per entry) or to \<^verbatim>\<open>to_excel\<close> (one sheet per entry).
\<close>

definition sheet_name :: "string \<Rightarrow> string" where
  "sheet_name key = take 31 (last (split key '' | ''))"

text \<open>One turn of the loop of lines 1361-1365.\<close>

definition collect ::
  "string \<times> dataframe \<Rightarrow> (string \<times> dataframe) list \<Rightarrow> (string \<times> dataframe) list" where
  "collect kv acc =
     (if \<not> endswith (fst kv) ''_notes'' then AList.update (sheet_name (fst kv)) (snd kv) acc
      else acc)"

definition all_data :: "(string \<times> dataframe) list \<Rightarrow> (string \<times> dataframe) list" where
  "all_data rs = fold collect rs []"

text \<open>With nothing stored the button shows a warning and exports nothing.\<close>

definition export_all_results :: "session \<Rightarrow> (string \<times> dataframe) list option" where
  "export_all_results s = (if responses s = [] then None else Some (all_data (responses s)))"

section \<open>Sample inputs\<close>

text \<open>A database that creates the driver with handle 7 and gives one fixed answer to every
  query; a chart library that accepts every frame; a session that is connected through
  the driver with handle 1 and shows a section of a category.\<close>

definition answering :: "string + py_dict list \<Rightarrow> database" where
  "answering a = \<lparr>new_driver = (\<lambda>uri username password. Inr 7), run_query = (\<lambda>d q ps. a)\<rparr>"

fun text_of :: "scalar \<Rightarrow> string" where
  "text_of (Str x) = x"
| "text_of (Num n) = ''#''"
| "text_of Null = ''None''"

definition plain_library :: library where
  "plain_library =
     \<lparr>data_error = (\<lambda>l df. None), format_pair = (\<lambda>a b. text_of a @ '' + '' @ text_of b)\<rparr>"

definition viewing :: "string \<Rightarrow> string \<Rightarrow> session" where
  "viewing cat sec =
     \<lparr>current_page = ''Category'', category = Some cat, section_sel = Some sec,
      responses = [], neo4j_connected = True, neo4j_driver = Some 1\<rparr>"

definition connected_session :: session where
  "connected_session = viewing ''Reorder Behavior & Loyalty Drivers'' ''Reorder Dynamics''"

section \<open>Navigation: properties\<close>

lemma step_keeps_invariant:
  "nav_invariant s \<Longrightarrow> offered a s \<Longrightarrow> nav_invariant (step a s)"
  by (cases a)
     (simp_all add: nav_invariant_def navigate_to_home_def navigate_to_category_def
        navigate_to_section_def back_to_sections_def)

lemma run_keeps_invariant:
  "nav_invariant s \<Longrightarrow> offered_all s as \<Longrightarrow> nav_invariant (run s as)"
proof (induction as arbitrary: s)
  case Nil
  then show ?case by simp
next
  case (Cons a as)
  from Cons.prems have "nav_invariant (step a s)" and "offered_all (step a s) as"
    by (simp_all add: step_keeps_invariant)
  then show ?case using Cons.IH by simp
qed

lemma offered_all_take: "offered_all s as \<Longrightarrow> offered_all s (take k as)"
proof (induction as arbitrary: s k)
  case Nil
  then show ?case by simp
next
  case (Cons a as)
  then show ?case by (cases k) simp_all
qed

lemma initial_invariant: "nav_invariant initial"
  by (simp add: nav_invariant_def initial_def)

text \<open>
  C1 (as claimed, refuted): the claim asks for the invariant after every sequence of the
  four operations from the initial state, also when a section is selected with no
  category. Selecting a section from the initial state leaves the page at Home and the
  category empty while the section is set.
\<close>

theorem C1_select_section_from_home_breaks_invariant:
  "\<not> nav_invariant (run initial [Select_section (Some ''Reorder Dynamics'')])"
  by (simp add: nav_invariant_def initial_def navigate_to_section_def)

text \<open>
  C1 (amended): starting from the initial state, after every call of a sequence in which
  each section selection is made where the interface offers it (Category page, a category
  selected), a selected section implies a selected category and the Category page.
\<close>

theorem C1_invariant_on_offered_sequences:
  "offered_all initial as \<Longrightarrow> k \<le> length as \<Longrightarrow> nav_invariant (run initial (take k as))"
  by (rule run_keeps_invariant [OF initial_invariant offered_all_take])

theorem C1_invariant_on_offered_sequences_witness:
  "offered_all initial
     [Select_category (Some ''Demand Trends & Seasonality''),
      Select_section (Some ''Seasonal Effects''), Back_to_sections,
      Select_section (Some ''Seasonal Effects''), Go_home]
   \<and> (2::nat) \<le> length
     [Select_category (Some ''Demand Trends & Seasonality''),
      Select_section (Some ''Seasonal Effects''), Back_to_sections,
      Select_section (Some ''Seasonal Effects''), Go_home]
   \<and> section_sel (run initial (take 2
     [Select_category (Some ''Demand Trends & Seasonality''),
      Select_section (Some ''Seasonal Effects''), Back_to_sections,
      Select_section (Some ''Seasonal Effects''), Go_home])) = Some ''Seasonal Effects''
   \<and> nav_invariant (run initial (take 2
     [Select_category (Some ''Demand Trends & Seasonality''),
      Select_section (Some ''Seasonal Effects''), Back_to_sections,
      Select_section (Some ''Seasonal Effects''), Go_home]))"
proof -
  let ?as = "[Select_category (Some ''Demand Trends & Seasonality''),
      Select_section (Some ''Seasonal Effects''), Back_to_sections,
      Select_section (Some ''Seasonal Effects''), Go_home]"
  have a: "offered_all initial ?as"
    by (simp add: initial_def navigate_to_category_def navigate_to_section_def
        back_to_sections_def)
  have b: "(2::nat) \<le> length ?as" by simp
  have c: "section_sel (run initial (take 2 ?as)) = Some ''Seasonal Effects''"
    by (simp add: numeral_2_eq_2 initial_def navigate_to_category_def navigate_to_section_def)
  from a b c C1_invariant_on_offered_sequences [OF a b] show ?thesis by blast
qed




text \<open>
  C9: \<^verbatim>\<open>navigate_to_section\<close> changes the section field only. For every state and
  every argument the page, the category, the stored results, the connection flag and the
  driver handle are as before, and the section is the argument.
\<close>

theorem C9_navigate_to_section_frame:
  "current_page (navigate_to_section x s) = current_page s
   \<and> category (navigate_to_section x s) = category s
   \<and> responses (navigate_to_section x s) = responses s
   \<and> neo4j_connected (navigate_to_section x s) = neo4j_connected s
   \<and> neo4j_driver (navigate_to_section x s) = neo4j_driver s
   \<and> section_sel (navigate_to_section x s) = x
   \<and> navigate_to_section x s = s\<lparr>section_sel := x\<rparr>"
  by (simp add: navigate_to_section_def)

section \<open>Connection and query execution: properties\<close>

text \<open>
  C6: a query attempted while the connection flag is off fails with \<open>NotConnected\<close> and
  makes no call to the database, whatever the database would answer. On the page the
  button then shows the error text and leaves the session as it was.
\<close>

theorem C6_disconnected_query_fails_without_contact:
  assumes "\<not> neo4j_connected s"
  shows "run_neo4j_query db query params s = (Inl NotConnected, [])
    \<and> calls (run_analysis lib db cat sec question query s) = []
    \<and> state (run_analysis lib db cat sec question query s) = s
    \<and> shown (run_analysis lib db cat sec question query s)
           = [St_error ''Not connected to Neo4j. Please connect first.'']"
  using assms by (simp add: run_neo4j_query_def run_analysis_def)

theorem C6_disconnected_query_fails_without_contact_witness:
  "\<not> neo4j_connected initial
   \<and> run_neo4j_query (answering (Inr [[(''n'', Num 1)]])) ''MATCH (c:User) RETURN count(c) AS n''
        None initial = (Inl NotConnected, [])"
  using C6_disconnected_query_fails_without_contact
    [of initial "answering (Inr [[(''n'', Num 1)]])" "''MATCH (c:User) RETURN count(c) AS n''" None
      plain_library "''c''" "''s''" "''q''"]
  by (simp add: initial_def)

text \<open>
  C7: when the database raises during a query, the failure becomes \<open>QueryError\<close> with
  the raised message, the error text shown ends with that message, and the button leaves
  the session, and so the stored results, unchanged.
\<close>

theorem C7_query_failure_wrapped_and_state_kept:
  assumes "neo4j_connected s" and "neo4j_driver s = Some d"
    and "run_query db d query [] = Inl msg"
  shows "fst (run_neo4j_query db query None s) = Inl (QueryError msg)
    \<and> error_text (QueryError msg) = ''Query execution failed: '' @ msg
    \<and> shown (run_analysis lib db cat sec question query s)
           = [St_error (''Query execution failed: '' @ msg)]
    \<and> state (run_analysis lib db cat sec question query s) = s
    \<and> responses (state (run_analysis lib db cat sec question query s)) = responses s"
  using assms by (simp add: run_neo4j_query_def run_analysis_def)

theorem C7_query_failure_wrapped_and_state_kept_witness:
  "neo4j_connected connected_session \<and> neo4j_driver connected_session = Some 1
   \<and> run_query (answering (Inl ''Connection reset'')) 1 ''MATCH (n) RETURN n'' []
        = Inl ''Connection reset''
   \<and> fst (run_neo4j_query (answering (Inl ''Connection reset'')) ''MATCH (n) RETURN n'' None
        connected_session) = Inl (QueryError ''Connection reset'')"
  using C7_query_failure_wrapped_and_state_kept
    [of connected_session 1 "answering (Inl ''Connection reset'')" "''MATCH (n) RETURN n''"
      "''Connection reset''" plain_library "''c''" "''s''" "''q''"]
  by (simp add: connected_session_def viewing_def answering_def)

text \<open>
  C10: when \<^verbatim>\<open>connect_to_neo4j\<close> succeeds in a session that already stores a driver
  handle, the stored handle becomes the new driver, the session is connected, and the
  calls made are the creation of the new driver and the test query on it: the previous
  handle is not closed.
\<close>

theorem C10_connect_overwrites_handle_without_close:
  assumes "neo4j_driver s = Some old"
    and "new_driver db uri username password = Inr d"
    and "run_query db d ''RETURN 1 AS test'' [] = Inr recs"
  shows "connected_ok (connect_to_neo4j db uri username password s)
    \<and> neo4j_driver (connect_state (connect_to_neo4j db uri username password s)) = Some d
    \<and> neo4j_connected (connect_state (connect_to_neo4j db uri username password s))
    \<and> connect_calls (connect_to_neo4j db uri username password s)
           = [Driver_new uri username password, Session_run d ''RETURN 1 AS test'' []]
    \<and> Driver_close old \<notin> set (connect_calls (connect_to_neo4j db uri username password s))"
  using assms by (simp add: connect_to_neo4j_def)

theorem C10_connect_overwrites_handle_without_close_witness:
  "neo4j_driver connected_session = Some 1
   \<and> new_driver (answering (Inr [[(''test'', Num 1)]])) ''bolt://localhost:7687'' ''neo4j''
        ''secret'' = Inr 7
   \<and> run_query (answering (Inr [[(''test'', Num 1)]])) 7 ''RETURN 1 AS test'' []
        = Inr [[(''test'', Num 1)]]
   \<and> neo4j_driver (connect_state (connect_to_neo4j (answering (Inr [[(''test'', Num 1)]]))
        ''bolt://localhost:7687'' ''neo4j'' ''secret'' connected_session)) = Some 7
   \<and> Driver_close 1 \<notin> set (connect_calls (connect_to_neo4j
        (answering (Inr [[(''test'', Num 1)]])) ''bolt://localhost:7687'' ''neo4j'' ''secret''
        connected_session))"
  using C10_connect_overwrites_handle_without_close
    [of connected_session 1 "answering (Inr [[(''test'', Num 1)]])" "''bolt://localhost:7687''"
      "''neo4j''" "''secret''" 7 "[[(''test'', Num 1)]]"]
  by (simp add: connected_session_def viewing_def answering_def)


section \<open>Strings and lists: auxiliary facts\<close>

lemma startswith_take: "startswith s p \<Longrightarrow> take (length p) s = p"
  by (induction s p rule: startswith.induct) simp_all

lemma startswith_key:
  assumes "startswith s p" and "n \<le> length p"
  shows "take n s = take n p"
proof -
  have "take n p = take n (take (length p) s)"
    using assms(1) by (simp add: startswith_take)
  also have "\<dots> = take n s"
    using assms(2) by (simp add: min_def)
  finally show ?thesis by simp
qed

lemma filter_at_most_one:
  assumes "distinct xs"
    and "\<And>a b. a \<in> set xs \<Longrightarrow> b \<in> set xs \<Longrightarrow> P a \<Longrightarrow> P b \<Longrightarrow> a = b"
  shows "length (filter P xs) \<le> 1"
  using assms
proof (induction xs)
  case Nil
  then show ?case by simp
next
  case (Cons x xs)
  show ?case
  proof (cases "P x")
    case True
    have "filter P xs = []"
    proof (rule ccontr)
      assume "filter P xs \<noteq> []"
      then obtain y where y: "y \<in> set xs" "P y"
        by (metis filter_False)
      with True Cons.prems(2) [of x y] have "x = y" by simp
      with y(1) Cons.prems(1) show False by simp
    qed
    with True show ?thesis by simp
  next
    case False
    have "length (filter P xs) \<le> 1"
      using Cons.IH Cons.prems by simp
    with False show ?thesis by simp
  qed
qed

section \<open>Charts: properties\<close>

text \<open>The literals of the chart blocks differ pairwise within their first 31 characters,
  and each has at least 31; so do the questions of the catalog, none of which has white
  space at an end.\<close>

lemma rule_keys_distinct: "distinct (map (\<lambda>r. take 31 (starts r)) chart_rules)"
  by code_simp

lemma rule_literals_long: "list_all (\<lambda>r. 31 \<le> length (starts r)) chart_rules"
  by code_simp

lemma catalog_keys_distinct: "distinct (map (take 31) catalog_questions)"
  by code_simp

lemma catalog_stripped: "list_all (\<lambda>q. strip q = q) catalog_questions"
  by code_simp

text \<open>Every literal of a chart block is a question of the catalog.\<close>

lemma rule_literals_in_catalog:
  "list_all (\<lambda>r. starts r \<in> set catalog_questions) chart_rules"
  by code_simp

lemma one_rule_per_text:
  assumes "r \<in> set chart_rules" and "r' \<in> set chart_rules"
    and "startswith t (starts r)" and "startswith t (starts r')"
  shows "r = r'"
proof -
  from assms(1,2) rule_literals_long
  have len: "31 \<le> length (starts r)" "31 \<le> length (starts r')"
    by (simp_all add: list_all_iff)
  have "take 31 (starts r) = take 31 t"
    using startswith_key [OF assms(3) len(1)] by simp
  also have "\<dots> = take 31 (starts r')"
    using startswith_key [OF assms(4) len(2)] by simp
  finally have "take 31 (starts r) = take 31 (starts r')" .
  moreover have "inj_on (\<lambda>r. take 31 (starts r)) (set chart_rules)"
    using rule_keys_distinct by (simp add: distinct_map)
  ultimately show ?thesis
    using assms(1,2) by (auto dest: inj_onD)
qed

lemma one_question_per_rule:
  assumes "q1 \<in> set catalog_questions" and "q2 \<in> set catalog_questions"
    and "r \<in> set chart_rules"
    and "startswith (strip q1) (starts r)" and "startswith (strip q2) (starts r)"
  shows "q1 = q2"
proof -
  from assms(1,2) catalog_stripped have s: "strip q1 = q1" "strip q2 = q2"
    by (simp_all add: list_all_iff)
  from assms(3) rule_literals_long have len: "31 \<le> length (starts r)"
    by (simp add: list_all_iff)
  have "take 31 q1 = take 31 (starts r)"
    using startswith_key [OF assms(4) len] s by simp
  also have "\<dots> = take 31 q2"
    using startswith_key [OF assms(5) len] s by simp
  finally have "take 31 q1 = take 31 q2" .
  moreover have "inj_on (take 31) (set catalog_questions)"
    using catalog_keys_distinct by (simp add: distinct_map)
  ultimately show ?thesis
    using assms(1,2) by (auto dest: inj_onD)
qed

lemma rule_literal_is_question:
  assumes "q \<in> set catalog_questions" and "r \<in> set chart_rules"
    and "startswith (strip q) (starts r)"
  shows "starts r = q"
proof -
  from assms(1) catalog_stripped have s: "strip q = q"
    by (simp add: list_all_iff)
  from assms(2) rule_literals_long rule_literals_in_catalog
  have len: "31 \<le> length (starts r)" and mem: "starts r \<in> set catalog_questions"
    by (simp_all add: list_all_iff)
  have "take 31 (starts r) = take 31 q"
    using startswith_key [OF assms(3) len] s by simp
  moreover have "inj_on (take 31) (set catalog_questions)"
    using catalog_keys_distinct by (simp add: distinct_map)
  ultimately show ?thesis
    using assms(1) mem by (auto dest: inj_onD)
qed

lemma catalog_distinct: "distinct catalog_questions"
  using catalog_keys_distinct by (simp add: distinct_map)

lemma chart_rules_distinct: "distinct chart_rules"
  using rule_keys_distinct by (simp add: distinct_map)

lemma charts_bound:
  "run_rules lib rs q df = (d, charts, x) \<Longrightarrow>
   length charts \<le> length (filter (\<lambda>r. startswith (strip q) (starts r)) rs)"
proof (induction rs arbitrary: df d charts x)
  case Nil
  then show ?case by simp
next
  case (Cons r rs)
  show ?case
  proof (cases "fires r q df")
    case False
    with Cons.prems have "run_rules lib rs q df = (d, charts, x)" by simp
    from Cons.IH [OF this] show ?thesis
      by (simp add: le_SucI)
  next
    case True
    then have m: "startswith (strip q) (starts r)" by (simp add: fires_def)
    obtain df' res where b: "build lib r df = (df', res)"
      by (cases "build lib r df") auto
    show ?thesis
    proof (cases res)
      case (Some e)
      with True b Cons.prems have "charts = []" by simp
      then show ?thesis by simp
    next
      case None
      obtain d' cs x' where rec: "run_rules lib rs q df' = (d', cs, x')"
        by (cases "run_rules lib rs q df'") auto
      with True b None Cons.prems have "charts = St_plotly_chart (at_line r) # cs" by simp
      with Cons.IH [OF rec] m show ?thesis by simp
    qed
  qed
qed

lemma text_matches_at_most_one:
  "length (filter (\<lambda>r. startswith t (starts r)) chart_rules) \<le> 1"
  by (rule filter_at_most_one [OF chart_rules_distinct]) (rule one_rule_per_text)



text \<open>
  C2: what the button shows for a question and a fetched table is the same in any two
  runs, whatever the session, the database and the place of the question; a chart block
  fires for a question of the catalog only if its literal is that very question, so a
  block that fires for one question of the catalog fires for no other, whatever the two
  tables (so also when their columns agree), the questions of the catalog being pairwise
  different; and for every question and table at most one chart is drawn.
\<close>

theorem C2_chart_dispatch_keyed_on_question:
  "(run_neo4j_query db1 query1 None s1 = (Inr df, c1)
      \<and> run_neo4j_query db2 query2 None s2 = (Inr df, c2) \<longrightarrow>
      shown (run_analysis lib db1 cat1 sec1 question query1 s1)
        = shown (run_analysis lib db2 cat2 sec2 question query2 s2)
      \<and> raised (run_analysis lib db1 cat1 sec1 question query1 s1)
        = raised (run_analysis lib db2 cat2 sec2 question query2 s2))
   \<and> (q1 \<in> set catalog_questions \<longrightarrow>
        (\<forall>r\<in>set chart_rules. fires r q1 df1 \<longrightarrow> starts r = q1))
   \<and> (q1 \<in> set catalog_questions \<and> q2 \<in> set catalog_questions \<and> q1 \<noteq> q2 \<longrightarrow>
        (\<forall>r\<in>set chart_rules. \<not> (fires r q1 df1 \<and> fires r q2 df2)))
   \<and> distinct catalog_questions
   \<and> length (fst (snd (show_charts lib q df0))) \<le> 1"
proof -
  have a: "run_neo4j_query db1 query1 None s1 = (Inr df, c1)
      \<and> run_neo4j_query db2 query2 None s2 = (Inr df, c2) \<longrightarrow>
      shown (run_analysis lib db1 cat1 sec1 question query1 s1)
        = shown (run_analysis lib db2 cat2 sec2 question query2 s2)
      \<and> raised (run_analysis lib db1 cat1 sec1 question query1 s1)
        = raised (run_analysis lib db2 cat2 sec2 question query2 s2)"
    by (simp add: run_analysis_def split: prod.splits)
  have b: "q1 \<in> set catalog_questions \<and> q2 \<in> set catalog_questions \<and> q1 \<noteq> q2 \<longrightarrow>
        (\<forall>r\<in>set chart_rules. \<not> (fires r q1 df1 \<and> fires r q2 df2))"
    using one_question_per_rule [of q1 q2] by (auto simp: fires_def)
  obtain d charts x where sc: "run_rules lib chart_rules q df0 = (d, charts, x)"
    by (cases "run_rules lib chart_rules q df0") auto
  have "length charts \<le> 1"
    using charts_bound [OF sc] text_matches_at_most_one [of "strip q"] by simp
  then have c: "length (fst (snd (show_charts lib q df0))) \<le> 1"
    using sc by (simp add: show_charts_def)
  have e: "q1 \<in> set catalog_questions \<longrightarrow>
        (\<forall>r\<in>set chart_rules. fires r q1 df1 \<longrightarrow> starts r = q1)"
    using rule_literal_is_question [of q1] by (auto simp: fires_def)
  from a b c e catalog_distinct show ?thesis by blast
qed


theorem C2_chart_dispatch_keyed_on_question_witness:
  "run_neo4j_query (answering (Inr [[(''department'', Str ''produce''), (''orderCount'', Num 50),
        (''pctOfTotalOrders'', Num 50)]])) ''MATCH (d:Department) RETURN d'' None
      (viewing ''Performance Metrics & Sales KPIs'' ''Resource allocation and marketing focus'')
     = (Inr \<lparr>columns = [''department'', ''orderCount'', ''pctOfTotalOrders''],
              rows = [[Str ''produce'', Num 50, Num 50]]\<rparr>,
        [Session_run 1 ''MATCH (d:Department) RETURN d'' []])
   \<and> run_neo4j_query (answering (Inr [[(''department'', Str ''produce''), (''orderCount'', Num 50),
        (''pctOfTotalOrders'', Num 50)]])) ''MATCH (d:Department) RETURN d'' None
      ((viewing ''Performance Metrics & Sales KPIs''
          ''Resource allocation and marketing focus'')
        \<lparr>neo4j_driver := Some 2,
         responses := [(''k'', \<lparr>columns = [''n''], rows = [[Num 3]]\<rparr>)]\<rparr>)
     = (Inr \<lparr>columns = [''department'', ''orderCount'', ''pctOfTotalOrders''],
              rows = [[Str ''produce'', Num 50, Num 50]]\<rparr>,
        [Session_run 2 ''MATCH (d:Department) RETURN d'' []])
   \<and> shown (run_analysis plain_library
        (answering (Inr [[(''department'', Str ''produce''), (''orderCount'', Num 50),
          (''pctOfTotalOrders'', Num 50)]]))
        ''Performance Metrics & Sales KPIs'' ''Resource allocation and marketing focus''
        ''Which departments contribute most to overall order volume?''
        ''MATCH (d:Department) RETURN d''
        (viewing ''Performance Metrics & Sales KPIs''
           ''Resource allocation and marketing focus''))
     = shown (run_analysis plain_library
        (answering (Inr [[(''department'', Str ''produce''), (''orderCount'', Num 50),
          (''pctOfTotalOrders'', Num 50)]]))
        ''Performance Metrics & Sales KPIs'' ''Resource allocation and marketing focus''
        ''Which departments contribute most to overall order volume?''
        ''MATCH (d:Department) RETURN d''
        ((viewing ''Performance Metrics & Sales KPIs''
            ''Resource allocation and marketing focus'')
          \<lparr>neo4j_driver := Some 2,
           responses := [(''k'', \<lparr>columns = [''n''], rows = [[Num 3]]\<rparr>)]\<rparr>))
   \<and> ''Which departments contribute most to overall order volume?'' \<in> set catalog_questions
   \<and> \<not> (\<exists>r\<in>set chart_rules.
         fires r ''Which departments contribute most to overall order volume?''
           \<lparr>columns = [''department'', ''orderCount'', ''pctOfTotalOrders''],
            rows = [[Str ''produce'', Num 50, Num 50]]\<rparr>
         \<and> starts r \<noteq> ''Which departments contribute most to overall order volume?'')
   \<and> ''What proportion of shipments are in transit, delivered and dispatched?''
        \<in> set catalog_questions
   \<and> ''Which departments contribute most to overall order volume?''
        \<noteq> ''What proportion of shipments are in transit, delivered and dispatched?''
   \<and> \<not> (\<exists>r\<in>set chart_rules.
         fires r ''Which departments contribute most to overall order volume?''
           \<lparr>columns = [''department'', ''orderCount'', ''pctOfTotalOrders''],
            rows = [[Str ''produce'', Num 50, Num 50]]\<rparr>
         \<and> fires r ''What proportion of shipments are in transit, delivered and dispatched?''
           \<lparr>columns = [''department'', ''orderCount'', ''pctOfTotalOrders''],
            rows = [[Str ''produce'', Num 50, Num 50]]\<rparr>)"
proof -
  let ?q1 = "''Which departments contribute most to overall order volume?''"
  let ?q2 = "''What proportion of shipments are in transit, delivered and dispatched?''"
  let ?cat = "''Performance Metrics & Sales KPIs''"
  let ?sec = "''Resource allocation and marketing focus''"
  let ?query = "''MATCH (d:Department) RETURN d''"
  let ?df = "\<lparr>columns = [''department'', ''orderCount'', ''pctOfTotalOrders''],
          rows = [[Str ''produce'', Num 50, Num 50]]\<rparr>"
  let ?db = "answering (Inr [[(''department'', Str ''produce''), (''orderCount'', Num 50),
          (''pctOfTotalOrders'', Num 50)]])"
  let ?s1 = "viewing ?cat ?sec"
  let ?s2 = "(viewing ?cat ?sec)\<lparr>neo4j_driver := Some 2,
           responses := [(''k'', \<lparr>columns = [''n''], rows = [[Num 3]]\<rparr>)]\<rparr>"
  have r1: "run_neo4j_query ?db ?query None ?s1 = (Inr ?df, [Session_run 1 ?query []])"
    by code_simp
  have r2: "run_neo4j_query ?db ?query None ?s2 = (Inr ?df, [Session_run 2 ?query []])"
    by code_simp
  have m1: "?q1 \<in> set catalog_questions" by code_simp
  have m2: "?q2 \<in> set catalog_questions" by code_simp
  have ne: "?q1 \<noteq> ?q2" by simp
  from r1 r2 m1 m2 ne
    C2_chart_dispatch_keyed_on_question
      [of ?db ?query ?s1 ?df "[Session_run 1 ?query []]" ?db ?query ?s2
        "[Session_run 2 ?query []]" plain_library ?cat ?sec ?q1 ?cat ?sec ?q1 ?df ?q2 ?df]
  show ?thesis by blast
qed





section \<open>Stored results: properties\<close>




section \<open>Export: properties\<close>












end
